theory Spec2Isabelle
  imports Complex_Main "HOL-Library.Sublist" "HOL-Library.Char_ord" "HOL-Library.List_Lexorder"
begin

section \<open>Exceptions\<close>

text \<open>
  The Python exceptions the modelled functions raise or catch. A function that can raise
  returns \<open>exn + 'a\<close>, with \<open>Inl\<close> for the exception. \<open>APIError\<close> stands for whatever
  exception a call of the remote client (\<open>LogseqAPIClient\<close>) raises. All of them are
  subclasses of Python's \<open>Exception\<close>; only \<open>OSError\<close> is an instance of
  \<open>(OSError, IOError)\<close>.
\<close>

datatype exn =
    NameError string
  | AttributeError string
  | ValueError
  | OverflowError
  | OSError
  | TypeError
  | APIError string

section \<open>utils/cache.py: ResourceCache\<close>

text \<open>
  \<open>datetime\<close> values are points in time and \<open>timedelta\<close> values are durations, both
  counted in microseconds (the resolution of Python's \<open>datetime\<close>). The dictionary
  \<open>self._cache\<close> is a map from keys to pairs \<open>(data, timestamp)\<close>.
\<close>

type_synonym datetime = int
type_synonym timedelta = int

record 'v ResourceCache =
  cache :: "string \<rightharpoonup> ('v \<times> datetime)"
  ttl :: timedelta

definition ResourceCache_init :: "int \<Rightarrow> 'v ResourceCache" where
  "ResourceCache_init ttl_seconds = \<lparr>cache = Map.empty, ttl = ttl_seconds * 1000000\<rparr>"

text \<open>
  A fetcher is a zero-argument callable with side effects: it takes the state of the world
  \<open>'w\<close> it acts on and returns its result, or the exception it raises, with the new state.
  One invocation of the fetcher is one application of the function to the world.

  \<open>get_or_fetch\<close> reads the clock twice: \<open>now_check\<close> is the reading of
  \<open>datetime.now()\<close> in the expiry test, \<open>now_store\<close> the reading when the fetched value
  is stored. An exception of the fetcher propagates and leaves the dictionary as it was.
\<close>

definition fetch_new ::
  "'v ResourceCache \<Rightarrow> string \<Rightarrow> ('w \<Rightarrow> (exn + 'v) \<times> 'w) \<Rightarrow> datetime \<Rightarrow> 'w
    \<Rightarrow> (exn + 'v) \<times> 'v ResourceCache \<times> 'w" where
  "fetch_new c key fetcher now_store w =
     (case fetcher w of
        (Inl e, w') \<Rightarrow> (Inl e, c, w')
      | (Inr data, w') \<Rightarrow> (Inr data, c\<lparr>cache := (cache c)(key \<mapsto> (data, now_store))\<rparr>, w'))"

definition get_or_fetch ::
  "'v ResourceCache \<Rightarrow> string \<Rightarrow> ('w \<Rightarrow> (exn + 'v) \<times> 'w) \<Rightarrow> datetime \<Rightarrow> datetime \<Rightarrow> 'w
    \<Rightarrow> (exn + 'v) \<times> 'v ResourceCache \<times> 'w" where
  "get_or_fetch c key fetcher now_check now_store w =
     (case cache c key of
        Some (data, timestamp) \<Rightarrow>
          if now_check - timestamp < ttl c then (Inr data, c, w)
          else fetch_new c key fetcher now_store w
      | None \<Rightarrow> fetch_new c key fetcher now_store w)"

text \<open>
  \<open>invalidate(key=None)\<close> tests \<open>if key:\<close>, the truth value of the argument: \<open>None\<close> and
  the empty string are both false.
\<close>

definition truthy :: "string option \<Rightarrow> bool" where
  "truthy key = (case key of None \<Rightarrow> False | Some k \<Rightarrow> k \<noteq> [])"

definition invalidate :: "'v ResourceCache \<Rightarrow> string option \<Rightarrow> 'v ResourceCache" where
  "invalidate c key =
     (if truthy key then c\<lparr>cache := (cache c)(the key := None)\<rparr>
      else c\<lparr>cache := Map.empty\<rparr>)"

definition is_cached :: "'v ResourceCache \<Rightarrow> string \<Rightarrow> datetime \<Rightarrow> bool" where
  "is_cached c key now =
     (case cache c key of
        None \<Rightarrow> False
      | Some (data, timestamp) \<Rightarrow> now - timestamp < ttl c)"

section \<open>Strings and regular expressions\<close>

text \<open>
  Python strings are modelled as \<open>string\<close>; a character is read as a code point below
  256. \<open>replace\<close> is \<open>str.replace(old, new)\<close>: the occurrences of \<open>old\<close> are found from
  the left and do not overlap; an empty \<open>old\<close> matches before every character and at the
  end.
\<close>

fun replace_from :: "nat \<Rightarrow> string \<Rightarrow> string \<Rightarrow> string \<Rightarrow> string" where
  "replace_from skip [] old new = []"
| "replace_from skip (c # cs) old new =
     (if 0 < skip then replace_from (skip - 1) cs old new
      else if prefix old (c # cs) then new @ replace_from (length old - 1) cs old new
      else c # replace_from 0 cs old new)"

definition replace :: "string \<Rightarrow> string \<Rightarrow> string \<Rightarrow> string" where
  "replace s old new =
     (if old = [] then concat (map (\<lambda>c. new @ [c]) s) @ new else replace_from 0 s old new)"

text \<open>
  The character classes of the patterns: \<open>\d\<close>, \<open>\s\<close> (as Python's Unicode classes
  read on code points below 256), a range \<open>[a-b]\<close> and an explicit set \<open>[...]\<close>.
\<close>

datatype cclass = Digit | Space | Range char char | OneOf string

definition ord :: "char \<Rightarrow> nat" where
  "ord c = of_char c"

definition is_digit :: "char \<Rightarrow> bool" where
  "is_digit c = (48 \<le> ord c \<and> ord c \<le> 57)"

definition is_space :: "char \<Rightarrow> bool" where
  "is_space c = (ord c \<in> set [9, 10, 11, 12, 13, 28, 29, 30, 31, 32, 133, 160])"

fun in_class :: "cclass \<Rightarrow> char \<Rightarrow> bool" where
  "in_class Digit c = is_digit c"
| "in_class Space c = is_space c"
| "in_class (Range a b) c = (ord a \<le> ord c \<and> ord c \<le> ord b)"
| "in_class (OneOf cs) c = (c \<in> set cs)"

definition lower :: "char \<Rightarrow> char" where
  "lower c = (if 65 \<le> ord c \<and> ord c \<le> 90 then char_of (ord c + 32) else c)"

text \<open>
  \<open>re.sub\<close> of a pattern that is one character class: every character of the class is
  replaced.
\<close>

definition re_sub_class :: "cclass \<Rightarrow> string \<Rightarrow> string \<Rightarrow> string" where
  "re_sub_class cls repl s = concat (map (\<lambda>c. if in_class cls c then repl else [c]) s)"

text \<open>
  The regular expressions of the source: a literal, a greedy repetition of a character
  class (\<open>Many cls lo hi\<close>: at least \<open>lo\<close> and, when \<open>hi\<close> is given, at most \<open>hi\<close>
  characters), alternation and sequence. \<open>rmatch ic r s\<close> lists, in the order a
  backtracking matcher tries them, the rests of \<open>s\<close> after each prefix that \<open>r\<close> matches;
  \<open>ic\<close> is the flag \<open>re.IGNORECASE\<close>.
\<close>

datatype regex =
    Lit string
  | Many cclass nat "nat option"
  | Alt regex regex
  | Seq regex regex

fun Alts :: "regex list \<Rightarrow> regex" where
  "Alts [] = Lit []"
| "Alts [r] = r"
| "Alts (r # rs) = Alt r (Alts rs)"

fun Seqs :: "regex list \<Rightarrow> regex" where
  "Seqs [] = Lit []"
| "Seqs [r] = r"
| "Seqs (r # rs) = Seq r (Seqs rs)"

definition Opt :: "regex \<Rightarrow> regex" where
  "Opt r = Alt r (Lit [])"

definition lit_matches :: "bool \<Rightarrow> string \<Rightarrow> string \<Rightarrow> bool" where
  "lit_matches ic l s =
     (length l \<le> length s \<and>
      (if ic then map lower (take (length l) s) = map lower l else take (length l) s = l))"

definition many_rests :: "cclass \<Rightarrow> nat \<Rightarrow> nat option \<Rightarrow> string \<Rightarrow> string list" where
  "many_rests cls lo hi s =
     (let run = length (takeWhile (in_class cls) s);
          most = (case hi of None \<Rightarrow> run | Some h \<Rightarrow> min h run)
      in map (\<lambda>k. drop k s) (rev [lo..<Suc most]))"

fun rmatch :: "bool \<Rightarrow> regex \<Rightarrow> string \<Rightarrow> string list" where
  "rmatch ic (Lit l) s = (if lit_matches ic l s then [drop (length l) s] else [])"
| "rmatch ic (Many cls lo hi) s = many_rests cls lo hi s"
| "rmatch ic (Alt a b) s = rmatch ic a s @ rmatch ic b s"
| "rmatch ic (Seq a b) s = concat (map (rmatch ic b) (rmatch ic a s))"

text \<open>
  \<open>re.match('^...$', s, flags)\<close>: the pattern matches from the start of \<open>s\<close>, and \<open>$\<close>
  holds at the end of the string and before a newline that ends it.
\<close>

definition re_match_dollar :: "bool \<Rightarrow> regex \<Rightarrow> string \<Rightarrow> bool" where
  "re_match_dollar ic r s = list_ex (\<lambda>rest. rest = [] \<or> rest = [CHR 0x0A]) (rmatch ic r s)"

text \<open>
  \<open>re.sub(r'(g1)(g2)', r'\1', s)\<close> for a pattern of two groups that matches no empty
  string: the string is scanned from the left; where the pattern matches, the match is
  replaced by its first group and the scan goes on behind the match; elsewhere the
  character is kept.
\<close>

definition re_match_groups :: "regex \<Rightarrow> regex \<Rightarrow> string \<Rightarrow> (string \<times> string) option" where
  "re_match_groups g1 g2 s =
     (case concat (map (\<lambda>r1. map (\<lambda>r2. (r1, r2)) (rmatch False g2 r1)) (rmatch False g1 s)) of
        [] \<Rightarrow> None
      | (r1, r2) # _ \<Rightarrow> Some (take (length s - length r1) s, r2))"

function re_sub_group1 :: "regex \<Rightarrow> regex \<Rightarrow> string \<Rightarrow> string" where
  "re_sub_group1 g1 g2 [] = []"
| "re_sub_group1 g1 g2 (c # cs) =
     (case re_match_groups g1 g2 (c # cs) of
        None \<Rightarrow> c # re_sub_group1 g1 g2 cs
      | Some (group1, rest) \<Rightarrow>
          if length rest \<le> length cs then group1 @ re_sub_group1 g1 g2 rest
          else c # re_sub_group1 g1 g2 cs)"
  by pat_completeness auto
termination
  by (relation "measure (\<lambda>(g1, g2, s). length s)") auto

section \<open>Dates: strptime and strftime\<close>

text \<open>
  \<open>datetime.strptime(data_string, format)\<close> as CPython's \<open>_strptime\<close> does it, for the
  directives the source's formats use and the month names of the C locale: the format
  becomes a regular expression (a directive becomes a named group, a run of white space
  becomes \<open>\s+\<close>, any other character stands for itself), which is matched from the start
  of the string ignoring case; no match, or a match that does not reach the end of the
  string, is a \<open>ValueError\<close>, and so is a date that does not exist.
\<close>

record date =
  year :: nat
  month :: nat
  day :: nat

definition a_month :: "string list" where
  "a_month = [''jan'', ''feb'', ''mar'', ''apr'', ''may'', ''jun'',
              ''jul'', ''aug'', ''sep'', ''oct'', ''nov'', ''dec'']"

definition f_month :: "string list" where
  "f_month = [''january'', ''february'', ''march'', ''april'', ''may'', ''june'',
              ''july'', ''august'', ''september'', ''october'', ''november'', ''december'']"

text \<open>The alternatives of a name group are tried longest first (a stable sort).\<close>

definition seqToRE :: "string list \<Rightarrow> regex" where
  "seqToRE to_convert = Alts (map Lit (sort_key (\<lambda>n. - int (length n)) to_convert))"

definition one_of :: "cclass \<Rightarrow> regex" where
  "one_of cls = Many cls 1 (Some 1)"

definition directive :: "char \<Rightarrow> regex option" where
  "directive d =
     (if d = CHR ''b'' then Some (seqToRE a_month)
      else if d = CHR ''B'' then Some (seqToRE f_month)
      else if d = CHR ''d'' then
        Some (Alts [Seq (Lit ''3'') (one_of (Range CHR ''0'' CHR ''1'')),
                    Seq (one_of (Range CHR ''1'' CHR ''2'')) (one_of Digit),
                    Seq (Lit ''0'') (one_of (Range CHR ''1'' CHR ''9'')),
                    one_of (Range CHR ''1'' CHR ''9''),
                    Seq (Lit '' '') (one_of (Range CHR ''1'' CHR ''9''))])
      else if d = CHR ''Y'' then Some (Many Digit 4 (Some 4))
      else None)"

text \<open>
  \<open>strp_match format s\<close> lists the matches of the format's regular expression at the
  start of \<open>s\<close>, in the matcher's order: the text of each group and the rest of \<open>s\<close> behind
  the match.
\<close>

function strp_match :: "string \<Rightarrow> string \<Rightarrow> ((char \<times> string) list \<times> string) list" where
  "strp_match [] s = [([], s)]"
| "strp_match (c # fmt) s =
     (if c = CHR ''%'' then
        (case fmt of
           [] \<Rightarrow> []
         | d # fmt' \<Rightarrow>
             (case directive d of
                None \<Rightarrow> []
              | Some r \<Rightarrow>
                  concat (map (\<lambda>rest.
                      map (\<lambda>(groups, rest'). ((d, take (length s - length rest) s) # groups, rest'))
                        (strp_match fmt' rest))
                    (rmatch True r s))))
      else if is_space c then
        concat (map (strp_match (dropWhile is_space fmt)) (rmatch True (Many Space 1 None) s))
      else concat (map (strp_match fmt) (rmatch True (Lit [c]) s)))"
  by pat_completeness auto
termination
  by (relation "measure (\<lambda>(fmt, s). length fmt)")
     (auto simp: le_imp_less_Suc length_dropWhile_le)

definition int_of_str :: "string \<Rightarrow> nat" where
  "int_of_str g = foldl (\<lambda>n c. 10 * n + (ord c - 48)) 0 (dropWhile is_space g)"

definition index_of :: "'a list \<Rightarrow> 'a \<Rightarrow> nat" where
  "index_of xs x = length (takeWhile (\<lambda>y. y \<noteq> x) xs)"

definition is_leap :: "nat \<Rightarrow> bool" where
  "is_leap y = (y mod 4 = 0 \<and> (y mod 100 \<noteq> 0 \<or> y mod 400 = 0))"

definition days_in_month :: "nat \<Rightarrow> nat \<Rightarrow> nat" where
  "days_in_month y m =
     (if m = 2 then (if is_leap y then 29 else 28)
      else if m \<in> set [4, 6, 9, 11] then 30 else 31)"

definition valid_date :: "nat \<Rightarrow> nat \<Rightarrow> nat \<Rightarrow> bool" where
  "valid_date y m d =
     (1 \<le> y \<and> y \<le> 9999 \<and> 1 \<le> m \<and> m \<le> 12 \<and> 1 \<le> d \<and> d \<le> days_in_month y m)"

definition strptime :: "string \<Rightarrow> string \<Rightarrow> exn + date" where
  "strptime data_string fmt =
     (case strp_match fmt data_string of
        [] \<Rightarrow> Inl ValueError
      | (groups, rest) # _ \<Rightarrow>
          if rest \<noteq> [] then Inl ValueError
          else
            let y = (case map_of groups CHR ''Y'' of Some g \<Rightarrow> int_of_str g | None \<Rightarrow> 1900);
                m = (case map_of groups CHR ''B'' of
                       Some g \<Rightarrow> Suc (index_of f_month (map lower g))
                     | None \<Rightarrow>
                         (case map_of groups CHR ''b'' of
                            Some g \<Rightarrow> Suc (index_of a_month (map lower g))
                          | None \<Rightarrow> 1));
                d = (case map_of groups CHR ''d'' of Some g \<Rightarrow> int_of_str g | None \<Rightarrow> 1)
            in if valid_date y m d then Inr \<lparr>year = y, month = m, day = d\<rparr>
               else Inl ValueError)"

text \<open>
  \<open>str\<close> of a natural number, and \<open>date.strftime\<close> for the directives \<open>%Y\<close>, \<open>%m\<close> and
  \<open>%d\<close>: month and day in two digits, the year as the C library of Linux writes it,
  in all its digits and without leading zeros (a year from 1000 on has four digits; the
  C library of some other platforms pads a smaller year to four).
\<close>

fun str_nat :: "nat \<Rightarrow> string" where
  "str_nat n = (if n < 10 then [char_of (48 + n)] else str_nat (n div 10) @ [char_of (48 + n mod 10)])"

declare str_nat.simps [simp del]

definition str_int :: "int \<Rightarrow> string" where
  "str_int i = (if i < 0 then CHR ''-'' # str_nat (nat (- i)) else str_nat (nat i))"

definition zfill :: "nat \<Rightarrow> string \<Rightarrow> string" where
  "zfill width s = replicate (width - length s) CHR ''0'' @ s"

fun strftime :: "date \<Rightarrow> string \<Rightarrow> string" where
  "strftime dt (c # d # fmt) =
     (if c = CHR ''%'' then
        (if d = CHR ''Y'' then str_nat (year dt)
         else if d = CHR ''m'' then zfill 2 (str_nat (month dt))
         else if d = CHR ''d'' then zfill 2 (str_nat (day dt))
         else [c, d]) @ strftime dt fmt
      else c # strftime dt (d # fmt))"
| "strftime dt fmt = fmt"

section \<open>utils/filesystem.py\<close>

text \<open>
  A \<open>pathlib.Path\<close> is the list of the segments it was built from: \<open>Path g\<close> is the path
  of the string \<open>g\<close>, and \<open>joinpath p s\<close> is \<open>p / s\<close> for a segment \<open>s\<close> that is not empty
  and holds no \<open>/\<close>, as all the segments appended by the source are (\<open>safe_name_no_slash\<close>,
  \<open>strftime_no_slash\<close> below). The file system is a snapshot: for every path it gives
  the result of \<open>os.stat\<close>, or the error number \<open>os.stat\<close> fails with.
\<close>

type_synonym path = "string list"

definition Path :: "string \<Rightarrow> path" where
  "Path s = [s]"

definition joinpath :: "path \<Rightarrow> string \<Rightarrow> path" where
  "joinpath p s = p @ [s]"

record os_stat_result =
  st_size :: nat
  st_mtime :: rat
  st_ctime :: rat

datatype errno = ENOENT | ENOTDIR | EBADF | ELOOP | EACCES | ENAMETOOLONG | EIO

type_synonym filesystem = "path \<Rightarrow> errno + os_stat_result"

text \<open>
  \<open>Path.stat()\<close> raises \<open>ValueError\<close> (embedded null byte) for a path with a NUL
  character, and \<open>OSError\<close> with the error number where \<open>os.stat\<close> fails.

  \<open>Path.exists()\<close> (pathlib of CPython 3.11) calls \<open>stat\<close>: it answers \<open>False\<close> for
  the \<open>ValueError\<close> and for an \<open>OSError\<close> whose error number is one of \<open>ENOENT\<close>,
  \<open>ENOTDIR\<close>, \<open>EBADF\<close>, \<open>ELOOP\<close>, and raises every other \<open>OSError\<close> again (a directory
  on the way that may not be searched, a name that is too long). \<open>os.path.exists\<close>
  answers \<open>False\<close> for every failure of \<open>os.stat\<close> and never raises.
\<close>

definition embedded_null :: "path \<Rightarrow> bool" where
  "embedded_null p = list_ex (\<lambda>s. CHR 0x00 \<in> set s) p"

definition Path_stat :: "filesystem \<Rightarrow> path \<Rightarrow> exn + os_stat_result" where
  "Path_stat fs p =
     (if embedded_null p then Inl ValueError
      else case fs p of Inl en \<Rightarrow> Inl OSError | Inr st \<Rightarrow> Inr st)"

definition ignore_error :: "errno \<Rightarrow> bool" where
  "ignore_error en = (en \<in> set [ENOENT, ENOTDIR, EBADF, ELOOP])"

definition Path_exists :: "filesystem \<Rightarrow> path \<Rightarrow> exn + bool" where
  "Path_exists fs p =
     (if embedded_null p then Inr False
      else case fs p of
             Inl en \<Rightarrow> if ignore_error en then Inr False else Inl OSError
           | Inr st \<Rightarrow> Inr True)"

definition os_path_exists :: "filesystem \<Rightarrow> string \<Rightarrow> bool" where
  "os_path_exists fs s = (case Path_stat fs (Path s) of Inl e \<Rightarrow> False | Inr st \<Rightarrow> True)"

definition journal_patterns :: "regex list" where
  "journal_patterns =
     [Seqs [Alts (map Lit [''Jan'', ''Feb'', ''Mar'', ''Apr'', ''May'', ''Jun'',
                            ''Jul'', ''Aug'', ''Sep'', ''Oct'', ''Nov'', ''Dec'']),
            Many Space 1 None, Many Digit 1 (Some 2),
            Opt (Alts (map Lit [''st'', ''nd'', ''rd'', ''th''])),
            Lit '','', Many Space 1 None, Many Digit 4 (Some 4)],
      Seqs [Alts (map Lit [''January'', ''February'', ''March'', ''April'', ''May'', ''June'',
                            ''July'', ''August'', ''September'', ''October'', ''November'',
                            ''December'']),
            Many Space 1 None, Many Digit 1 (Some 2),
            Lit '','', Many Space 1 None, Many Digit 4 (Some 4)]]"

definition is_journal_page_name :: "string \<Rightarrow> bool" where
  "is_journal_page_name page_name =
     list_ex (\<lambda>pattern. re_match_dollar True pattern page_name) journal_patterns"

text \<open>
  \<open>convert_journal_name_to_path\<close>: the formats are tried in order; a \<open>ValueError\<close> of
  \<open>strptime\<close> goes on to the next format, and so does a parsed date whose journal file
  does not exist. An \<open>OSError\<close> that \<open>journal_path.exists()\<close> raises is not a
  \<open>ValueError\<close>: it leaves the loop, the outer handler \<open>except Exception: pass\<close>
  catches it, and the function returns \<open>None\<close>.
\<close>

definition journal_formats :: "string list" where
  "journal_formats =
     [''%b %d, %Y'', ''%B %d, %Y'', ''%b %dst, %Y'', ''%b %dnd, %Y'', ''%b %drd, %Y'',
      ''%b %dth, %Y'']"

definition cleaned_name :: "string \<Rightarrow> string" where
  "cleaned_name journal_name =
     re_sub_group1 (Many Digit 1 None) (Alts (map Lit [''st'', ''nd'', ''rd'', ''th'']))
       journal_name"

fun try_formats :: "filesystem \<Rightarrow> string \<Rightarrow> string \<Rightarrow> string list \<Rightarrow> path option" where
  "try_formats fs journal_name graph_path [] = None"
| "try_formats fs journal_name graph_path (fmt # fmts) =
     (case strptime (cleaned_name journal_name) fmt of
        Inl e \<Rightarrow> try_formats fs journal_name graph_path fmts
      | Inr date_obj \<Rightarrow>
          (let filename = strftime date_obj ''%Y_%m_%d.md'';
               journal_path = joinpath (joinpath (Path graph_path) ''journals'') filename
           in case Path_exists fs journal_path of
                Inl e \<Rightarrow> None
              | Inr found \<Rightarrow>
                  if found then Some journal_path
                  else try_formats fs journal_name graph_path fmts))"

definition convert_journal_name_to_path :: "filesystem \<Rightarrow> string \<Rightarrow> string \<Rightarrow> path option" where
  "convert_journal_name_to_path fs journal_name graph_path =
     try_formats fs journal_name graph_path journal_formats"

definition safe_name :: "string \<Rightarrow> string" where
  "safe_name page_name =
     re_sub_class (OneOf [CHR ''<'', CHR ''>'', CHR '':'', CHR 0x22, CHR ''|'', CHR ''?'', CHR ''*''])
       ''_'' (replace page_name ''/'' ''___'')"

text \<open>
  \<open>get_page_file_path\<close> has no handler: an \<open>OSError\<close> that one of its three calls of
  \<open>exists()\<close> raises is raised by the function.
\<close>

definition get_page_file_path :: "filesystem \<Rightarrow> string \<Rightarrow> string \<Rightarrow> exn + path option" where
  "get_page_file_path fs page_name graph_path =
     (if graph_path = [] \<or> \<not> os_path_exists fs graph_path then Inr None
      else
        let page_path = joinpath (joinpath (Path graph_path) ''pages'') (safe_name page_name @ ''.md'')
        in case Path_exists fs page_path of
             Inl e \<Rightarrow> Inl e
           | Inr page_found \<Rightarrow>
               if page_found then Inr (Some page_path)
               else
                 let journal_path =
                       joinpath (joinpath (Path graph_path) ''journals'')
                         (safe_name page_name @ ''.md'')
                 in case Path_exists fs journal_path of
                      Inl e \<Rightarrow> Inl e
                    | Inr journal_found \<Rightarrow>
                        if journal_found then Inr (Some journal_path)
                        else if is_journal_page_name page_name then
                          (case convert_journal_name_to_path fs page_name graph_path of
                             None \<Rightarrow> Inr None
                           | Some date_path \<Rightarrow>
                               (case Path_exists fs date_path of
                                  Inl e \<Rightarrow> Inl e
                                | Inr date_found \<Rightarrow>
                                    if date_found then Inr (Some date_path) else Inr None))
                        else Inr None)"

text \<open>
  \<open>get_file_metadata\<close>. \<open>isoformat_local t\<close> stands for
  \<open>datetime.fromtimestamp(t).isoformat()\<close>, which depends on the local time zone and
  raises for a time stamp outside the range of \<open>datetime\<close>. \<open>round2\<close> is \<open>round(x, 2)\<close>:
  to the nearest hundredth, a tie to the even one; the quotient \<open>st_size / 1024 / 1024\<close>
  is exact in floating point for every size below \<open>2 ^ 53\<close>, and sizes, time stamps and
  the rounded value are modelled as rationals. The handler \<open>except (OSError, IOError)\<close>
  covers the whole body and catches \<open>OSError\<close> only.
\<close>

record file_metadata =
  md_size :: nat
  md_size_mb :: rat
  md_modified_time :: rat
  md_created_time :: rat
  md_modified_date :: "string option"
  md_created_date :: "string option"
  md_exists :: bool

definition round2 :: "rat \<Rightarrow> rat" where
  "round2 x =
     (let n = \<lfloor>x * 100\<rfloor>; r = x * 100 - of_int n
      in of_int (if r < 1 / 2 then n else if 1 / 2 < r then n + 1
                 else if even n then n else n + 1) / 100)"

definition zeroed_metadata :: file_metadata where
  "zeroed_metadata =
     \<lparr>md_size = 0, md_size_mb = 0, md_modified_time = 0, md_created_time = 0,
      md_modified_date = None, md_created_date = None, md_exists = False\<rparr>"

definition except_OSError :: "exn + file_metadata \<Rightarrow> exn + file_metadata" where
  "except_OSError r = (case r of Inl e \<Rightarrow> if e = OSError then Inr zeroed_metadata else Inl e
                       | Inr m \<Rightarrow> Inr m)"

definition get_file_metadata ::
  "filesystem \<Rightarrow> (rat \<Rightarrow> exn + string) \<Rightarrow> path \<Rightarrow> exn + file_metadata" where
  "get_file_metadata fs isoformat_local file_path =
     except_OSError
       (case Path_stat fs file_path of
          Inl e \<Rightarrow> Inl e
        | Inr stat \<Rightarrow>
            (case isoformat_local (st_mtime stat) of
               Inl e \<Rightarrow> Inl e
             | Inr modified_date \<Rightarrow>
                 (case isoformat_local (st_ctime stat) of
                    Inl e \<Rightarrow> Inl e
                  | Inr created_date \<Rightarrow>
                      Inr \<lparr>md_size = st_size stat,
                           md_size_mb = round2 (of_nat (st_size stat) / 1024 / 1024),
                           md_modified_time = st_mtime stat,
                           md_created_time = st_ctime stat,
                           md_modified_date = Some modified_date,
                           md_created_date = Some created_date,
                           md_exists = True\<rparr>)))"

section \<open>config.py and Python name lookup\<close>

text \<open>
  A Python value where its kind matters: an integer, a string, \<open>None\<close>, or another object
  (a function, a class, a module).
\<close>

datatype pyval = IntV int | StrV string | NoneV | ObjV

text \<open>
  The class \<open>Config\<close> has six data attributes, read from the environment when the module
  is loaded, and the class method \<open>validate\<close>. \<open>getattr cfg name\<close> is the attribute access
  \<open>config.name\<close> on the instance: an attribute the class does not define raises
  \<open>AttributeError\<close>. (The special attributes every object has, such as \<open>__class__\<close>,
  are left out; the code reads none of them.)
\<close>

record Config =
  LOGSEQ_API_URL :: string
  LOGSEQ_TOKEN :: "string option"
  LOGSEQ_GRAPH_PATH :: "string option"
  CACHE_TTL :: int
  MAX_BATCH_SIZE :: int
  REQUEST_TIMEOUT :: int

definition optional_str :: "string option \<Rightarrow> pyval" where
  "optional_str v = (case v of None \<Rightarrow> NoneV | Some s \<Rightarrow> StrV s)"

definition Config_dict :: "Config \<Rightarrow> (string \<times> pyval) list" where
  "Config_dict cfg =
     [(''LOGSEQ_API_URL'', StrV (LOGSEQ_API_URL cfg)),
      (''LOGSEQ_TOKEN'', optional_str (LOGSEQ_TOKEN cfg)),
      (''LOGSEQ_GRAPH_PATH'', optional_str (LOGSEQ_GRAPH_PATH cfg)),
      (''CACHE_TTL'', IntV (CACHE_TTL cfg)),
      (''MAX_BATCH_SIZE'', IntV (MAX_BATCH_SIZE cfg)),
      (''REQUEST_TIMEOUT'', IntV (REQUEST_TIMEOUT cfg)),
      (''validate'', ObjV)]"

definition getattr :: "Config \<Rightarrow> string \<Rightarrow> exn + pyval" where
  "getattr cfg attr =
     (case map_of (Config_dict cfg) attr of
        None \<Rightarrow> Inl (AttributeError attr)
      | Some v \<Rightarrow> Inr v)"

text \<open>
  A name in a function body that the function does not bind is looked up in the
  enclosing function scopes, then in the module's globals (and the builtins, which bind
  neither name looked up below); an unbound name raises \<open>NameError\<close>. A scope is the
  list of the names bound in it. \<open>resources_globals\<close> are the names \<open>resources.py\<close>
  binds at module level: its imports, \<open>logseq_client\<close>, \<open>cache\<close>, its five resource
  functions and \<open>__all__\<close> (the special names of every module, such as \<open>__name__\<close>,
  are left out).
\<close>

definition resources_globals :: "(string \<times> pyval) list" where
  "resources_globals =
     map (\<lambda>n. (n, ObjV))
       [''datetime'', ''timedelta'', ''Dict'', ''List'', ''Any'', ''Optional'', ''defaultdict'',
        ''Path'', ''mcp'', ''LogseqAPIClient'', ''config'', ''ResourceCache'',
        ''get_page_file_path'', ''get_file_metadata'', ''get_graph_directories'',
        ''scan_graph_files'', ''is_journal_page_name'', ''log'', ''logseq_client'', ''cache'',
        ''get_graph_info'', ''get_recent_pages'', ''get_recent_journals'', ''get_templates'',
        ''get_graph_structure'', ''__all__'']"

fun load_name :: "(string \<times> pyval) list list \<Rightarrow> string \<Rightarrow> exn + pyval" where
  "load_name [] n = Inl (NameError n)"
| "load_name (scope # scopes) n =
     (case map_of scope n of Some v \<Rightarrow> Inr v | None \<Rightarrow> load_name scopes n)"

text \<open>The text an f-string puts for a value; an object's text is not modelled further.\<close>

definition format_value :: "pyval \<Rightarrow> string" where
  "format_value v =
     (case v of IntV i \<Rightarrow> str_int i | StrV s \<Rightarrow> s | NoneV \<Rightarrow> ''None'' | ObjV \<Rightarrow> ''<object>'')"

text \<open>
  A slice \<open>xs[:n]\<close>: a negative bound counts from the end, \<open>None\<close> is no bound, any other
  bound is a \<open>TypeError\<close>.
\<close>

definition slice_to :: "'a list \<Rightarrow> pyval \<Rightarrow> exn + 'a list" where
  "slice_to xs bound =
     (case bound of
        IntV n \<Rightarrow> Inr (if 0 \<le> n then take (nat n) xs else take (length xs - nat (- n)) xs)
      | NoneV \<Rightarrow> Inr xs
      | StrV s \<Rightarrow> Inl TypeError
      | ObjV \<Rightarrow> Inl TypeError)"

section \<open>resources.py\<close>

text \<open>
  \<open>get_recent_pages\<close> and \<open>get_recent_journals\<close>. Each defines a closure
  (\<open>fetch_recent_pages\<close>, \<open>fetch_recent_journals\<close>: the parameter \<open>fetcher\<close>, whose body
  runs only when the cache calls it) and then evaluates
  \<open>cache.get_or_fetch(f"recent_pages_{limit}", fetch_recent_pages)\<close>. The arguments are
  evaluated first, the f-string before the closure; \<open>limit\<close> and \<open>days\<close> are assigned in
  the closures only, so in the resource function they are names of no local scope: the
  only local name is the closure's.
\<close>

definition get_recent_pages ::
  "'v ResourceCache \<Rightarrow> ('w \<Rightarrow> (exn + 'v) \<times> 'w) \<Rightarrow> datetime \<Rightarrow> datetime \<Rightarrow> 'w
    \<Rightarrow> (exn + 'v) \<times> 'v ResourceCache \<times> 'w" where
  "get_recent_pages c fetcher now_check now_store w =
     (case load_name [[(''fetch_recent_pages'', ObjV)], resources_globals] ''limit'' of
        Inl e \<Rightarrow> (Inl e, c, w)
      | Inr limit \<Rightarrow>
          get_or_fetch c (''recent_pages_'' @ format_value limit) fetcher now_check now_store w)"

definition get_recent_journals ::
  "'v ResourceCache \<Rightarrow> ('w \<Rightarrow> (exn + 'v) \<times> 'w) \<Rightarrow> datetime \<Rightarrow> datetime \<Rightarrow> 'w
    \<Rightarrow> (exn + 'v) \<times> 'v ResourceCache \<times> 'w" where
  "get_recent_journals c fetcher now_check now_store w =
     (case load_name [[(''fetch_recent_journals'', ObjV)], resources_globals] ''days'' of
        Inl e \<Rightarrow> (Inl e, c, w)
      | Inr days \<Rightarrow>
          get_or_fetch c (''recent_journals_'' @ format_value days) fetcher now_check now_store w)"

text \<open>
  The remote client, for the three calls \<open>fetch_graph_structure\<close> makes; its answers
  depend on the arguments only. A page is the dictionary the client returns, with the
  keys the code reads: \<open>name\<close> (\<open>page.get('name', '')\<close>) and \<open>journal?\<close>
  (\<open>page.get('journal?', False)\<close>); a block has its \<open>content\<close>.
\<close>

record page =
  name :: "string option"
  journal :: "bool option"

record block =
  content :: "string option"

record 'r LogseqAPIClient =
  get_all_pages :: "exn + page list"
  get_page_linked_references :: "string \<Rightarrow> exn + 'r list"
  get_page_blocks :: "string \<Rightarrow> exn + block list"

definition page_name_of :: "page \<Rightarrow> string" where
  "page_name_of pg = (case name pg of None \<Rightarrow> [] | Some n \<Rightarrow> n)"

definition is_journal :: "page \<Rightarrow> bool" where
  "is_journal pg = (case journal pg of None \<Rightarrow> False | Some b \<Rightarrow> b)"

definition content_of :: "block \<Rightarrow> string" where
  "content_of b = (case content b of None \<Rightarrow> [] | Some t \<Rightarrow> t)"

text \<open>\<open>sub in s\<close> on strings, and \<open>s.rsplit('/', 1)[0]\<close> for an \<open>s\<close> that holds a \<open>/\<close>.\<close>

fun contains :: "string \<Rightarrow> string \<Rightarrow> bool" where
  "contains [] sub = (sub = [])"
| "contains (c # cs) sub = (prefix sub (c # cs) \<or> contains cs sub)"

definition rsplit_head :: "string \<Rightarrow> string" where
  "rsplit_head s = rev (tl (dropWhile (\<lambda>c. c \<noteq> CHR ''/'') (rev s)))"

text \<open>
  Dictionaries keep the order in which their keys were first stored:
  \<open>dict_set d k v\<close> is \<open>d[k] = v\<close>, \<open>dict_append d k v\<close> is \<open>d[k].append(v)\<close> on a
  \<open>defaultdict(list)\<close>.
\<close>

fun dict_set :: "('k \<times> 'v) list \<Rightarrow> 'k \<Rightarrow> 'v \<Rightarrow> ('k \<times> 'v) list" where
  "dict_set [] k v = [(k, v)]"
| "dict_set ((k', v') # d) k v = (if k' = k then (k, v) # d else (k', v') # dict_set d k v)"

fun dict_append :: "('k \<times> 'v list) list \<Rightarrow> 'k \<Rightarrow> 'v \<Rightarrow> ('k \<times> 'v list) list" where
  "dict_append [] k v = [(k, [v])]"
| "dict_append ((k', vs) # d) k v =
     (if k' = k then (k, vs @ [v]) # d else (k', vs) # dict_append d k v)"

text \<open>
  The loop of \<open>fetch_graph_structure\<close> over \<open>all_pages\<close>: \<open>process_page\<close> is one
  iteration. The \<open>try\<close> block covers both client calls; its handler logs the exception
  (\<open>logged\<close> keeps the page name and the exception) and the loop goes on.
\<close>

record analysis =
  namespaces :: "(string \<times> string list) list"
  orphaned_pages :: "string list"
  page_link_counts :: "(string \<times> nat) list"
  logged :: "(string \<times> exn) list"

definition has_outgoing :: "block list \<Rightarrow> bool" where
  "has_outgoing blocks = list_ex (\<lambda>b. contains (content_of b) ''[['') blocks"

definition process_page :: "'r LogseqAPIClient \<Rightarrow> analysis \<Rightarrow> page \<Rightarrow> analysis" where
  "process_page client st pg =
     (let page_name = page_name_of pg;
          st1 = st\<lparr>namespaces :=
                     (if CHR ''/'' \<in> set page_name
                      then dict_append (namespaces st) (rsplit_head page_name) page_name
                      else dict_append (namespaces st) ''_root'' page_name)\<rparr>
      in case get_page_linked_references client page_name of
           Inl e \<Rightarrow> st1\<lparr>logged := logged st1 @ [(page_name, e)]\<rparr>
         | Inr refs \<Rightarrow>
             (let link_count = length refs;
                  st2 = st1\<lparr>page_link_counts :=
                              dict_set (page_link_counts st1) page_name link_count\<rparr>
              in if link_count = 0 then
                   (case get_page_blocks client page_name of
                      Inl e \<Rightarrow> st2\<lparr>logged := logged st2 @ [(page_name, e)]\<rparr>
                    | Inr blocks \<Rightarrow>
                        if \<not> has_outgoing blocks
                        then st2\<lparr>orphaned_pages := orphaned_pages st2 @ [page_name]\<rparr>
                        else st2)
                 else st2))"

definition analysis_init :: analysis where
  "analysis_init = \<lparr>namespaces = [], orphaned_pages = [], page_link_counts = [], logged = []\<rparr>"

definition analyse_pages :: "'r LogseqAPIClient \<Rightarrow> page list \<Rightarrow> analysis" where
  "analyse_pages client all_pages = foldl (process_page client) analysis_init all_pages"

text \<open>
  The rest of \<open>fetch_graph_structure\<close>: the ranking, then the summary dictionary, whose
  entries are evaluated in the order they are written. \<open>sort_key\<close> is a stable sort, as
  \<open>sorted\<close> is, also with \<open>reverse=True\<close>.
\<close>

record graph_structure =
  total_pages :: nat
  journal_pages :: nat
  regular_pages :: nat
  namespace_pages :: "(string \<times> nat \<times> string list) list"
  root_pages :: nat
  orphaned_count :: nat
  orphaned_list :: "string list"
  most_linked_pages :: "(string \<times> nat) list"

fun namespace_summaries ::
  "Config \<Rightarrow> (string \<times> string list) list \<Rightarrow> exn + (string \<times> nat \<times> string list) list" where
  "namespace_summaries cfg [] = Inr []"
| "namespace_summaries cfg ((ns, pages) # rest) =
     (if ns \<noteq> ''_root'' then
        (case getattr cfg ''MAX_PAGES_PER_NAMESPACE'' of
           Inl e \<Rightarrow> Inl e
         | Inr bound \<Rightarrow>
             (case slice_to (sort pages) bound of
                Inl e \<Rightarrow> Inl e
              | Inr shown \<Rightarrow>
                  (case namespace_summaries cfg rest of
                     Inl e \<Rightarrow> Inl e
                   | Inr others \<Rightarrow> Inr ((ns, length pages, shown) # others))))
      else namespace_summaries cfg rest)"

definition fetch_graph_structure :: "Config \<Rightarrow> 'r LogseqAPIClient \<Rightarrow> exn + graph_structure" where
  "fetch_graph_structure cfg client =
     (case get_all_pages client of
        Inl e \<Rightarrow> Inl e
      | Inr all_pages \<Rightarrow>
          (let st = analyse_pages client all_pages
           in case getattr cfg ''MAX_LINKED_PAGES'' of
                Inl e \<Rightarrow> Inl e
              | Inr linked_bound \<Rightarrow>
                  (case slice_to (sort_key (\<lambda>x. - int (snd x)) (page_link_counts st)) linked_bound of
                     Inl e \<Rightarrow> Inl e
                   | Inr most_linked \<Rightarrow>
                       (case namespace_summaries cfg (namespaces st) of
                          Inl e \<Rightarrow> Inl e
                        | Inr summaries \<Rightarrow>
                            (case getattr cfg ''MAX_ORPHANED_PAGES'' of
                               Inl e \<Rightarrow> Inl e
                             | Inr orphan_bound \<Rightarrow>
                                 (case slice_to (orphaned_pages st) orphan_bound of
                                    Inl e \<Rightarrow> Inl e
                                  | Inr orphans \<Rightarrow>
                                      Inr \<lparr>total_pages = length all_pages,
                                           journal_pages = length (filter is_journal all_pages),
                                           regular_pages =
                                             length (filter (\<lambda>p. \<not> is_journal p) all_pages),
                                           namespace_pages = summaries,
                                           root_pages =
                                             (case map_of (namespaces st) ''_root'' of
                                                None \<Rightarrow> 0
                                              | Some pages \<Rightarrow> length pages),
                                           orphaned_count = length (orphaned_pages st),
                                           orphaned_list = orphans,
                                           most_linked_pages = most_linked\<rparr>))))))"

section \<open>An example graph\<close>

text \<open>
  A graph directory \<open>/graph\<close> with one page file and one journal file, used where a
  property is shown at a concrete input.
\<close>

definition graph_fs :: filesystem where
  "graph_fs p =
     (if p \<in> set [[''/graph''], [''/graph'', ''pages''], [''/graph'', ''journals''],
                   [''/graph'', ''pages'', ''Parent___Child.md''],
                   [''/graph'', ''journals'', ''2024_12_01.md'']]
      then Inr \<lparr>st_size = 2048, st_mtime = 1733000000, st_ctime = 1732000000\<rparr>
      else Inl ENOENT)"

text \<open>
  The same graph with the journal file only, and a directory \<open>pages\<close> that may not be
  searched: \<open>os.stat\<close> of every path below it fails with \<open>EACCES\<close>.
\<close>

definition locked_fs :: filesystem where
  "locked_fs p =
     (if p \<in> set [[''/graph''], [''/graph'', ''pages''], [''/graph'', ''journals''],
                   [''/graph'', ''journals'', ''2024_12_01.md'']]
      then Inr \<lparr>st_size = 2048, st_mtime = 1733000000, st_ctime = 1732000000\<rparr>
      else if 2 < length p \<and> take 2 p = [''/graph'', ''pages''] then Inl EACCES
      else Inl ENOENT)"

text \<open>
  A stand-in for the conversion of a time stamp to an ISO date in local time: the same
  text for every time stamp. No result below depends on the text.
\<close>

definition isoformat_const :: "rat \<Rightarrow> exn + string" where
  "isoformat_const t = Inr ''2024-12-01T00:00:00''"

text \<open>
  Five pages and a client: \<open>Lonely\<close> has neither references nor links, \<open>Linker\<close> has a
  link in a block, \<open>Hub\<close> has two linked references, the blocks of \<open>Broken\<close> cannot be
  read, and the references of \<open>Down\<close> cannot be read.
\<close>

definition broken_page :: page where
  "broken_page = \<lparr>name = Some ''Broken'', journal = None\<rparr>"

definition down_page :: page where
  "down_page = \<lparr>name = Some ''Down'', journal = None\<rparr>"

definition example_pages :: "page list" where
  "example_pages =
     [\<lparr>name = Some ''Lonely'', journal = None\<rparr>, \<lparr>name = Some ''Linker'', journal = None\<rparr>,
      \<lparr>name = Some ''Hub'', journal = None\<rparr>, broken_page, down_page]"

definition example_client :: "unit LogseqAPIClient" where
  "example_client =
     \<lparr>get_all_pages = Inr example_pages,
      get_page_linked_references =
        (\<lambda>n. if n = ''Down'' then Inl (APIError ''timeout'')
             else if n = ''Hub'' then Inr [(), ()] else Inr []),
      get_page_blocks =
        (\<lambda>n. if n = ''Linker'' then Inr [\<lparr>content = Some ''see [[Hub]]''\<rparr>]
             else if n = ''Broken'' then Inl (APIError ''timeout'')
             else Inr [\<lparr>content = Some ''plain text''\<rparr>])\<rparr>"

section \<open>Auxiliary notions for the page loop\<close>

text \<open>
  \<open>is_orphan\<close>: the client's answers make the page an orphan. \<open>count_step\<close>: what one
  iteration does to \<open>page_link_counts\<close>.
\<close>

definition is_orphan :: "'r LogseqAPIClient \<Rightarrow> string \<Rightarrow> bool" where
  "is_orphan client p \<longleftrightarrow>
     get_page_linked_references client p = Inr []
     \<and> (\<exists>blocks. get_page_blocks client p = Inr blocks \<and> \<not> has_outgoing blocks)"

definition count_step :: "'r LogseqAPIClient \<Rightarrow> (string \<times> nat) list \<Rightarrow> string \<Rightarrow> (string \<times> nat) list" where
  "count_step client d p =
     (case get_page_linked_references client p of
        Inl e \<Rightarrow> d
      | Inr refs \<Rightarrow> dict_set d p (length refs))"

section \<open>Properties of the cache\<close>

lemma get_or_fetch_hit:
  "cache c k = Some (v, T) \<Longrightarrow> now_check - T < ttl c
    \<Longrightarrow> get_or_fetch c k f now_check now_store w = (Inr v, c, w)"
  by (simp add: get_or_fetch_def)

lemma get_or_fetch_miss:
  "cache c k = None \<or> (\<exists>v T. cache c k = Some (v, T) \<and> ttl c \<le> now_check - T)
    \<Longrightarrow> get_or_fetch c k f now_check now_store w = fetch_new c k f now_store w"
  by (auto simp: get_or_fetch_def)

lemma fetch_new_raises:
  "f w = (Inl e, w') \<Longrightarrow> fetch_new c k f now_store w = (Inl e, c, w')"
  by (simp add: fetch_new_def)

lemma fetch_new_returns:
  "f w = (Inr r, w')
    \<Longrightarrow> fetch_new c k f now_store w = (Inr r, c\<lparr>cache := (cache c)(k \<mapsto> (r, now_store))\<rparr>, w')"
  by (simp add: fetch_new_def)

text \<open>
  Claim C2. For every key \<open>k\<close>, fetcher \<open>f\<close>, TTL, store time \<open>T\<close> and call time \<open>T'\<close>:
  when an entry \<open>(v, T)\<close> is stored under \<open>k\<close> and \<open>T' - T < ttl\<close>, \<open>get_or_fetch\<close>
  returns \<open>v\<close> and neither the cache nor the world changes, whatever \<open>f\<close> is (\<open>f\<close> is not
  invoked). Otherwise (no entry, or \<open>T' - T \<ge> ttl\<close>, equality included) \<open>f\<close> is applied
  to the world once, its result \<open>r\<close> is stored under \<open>k\<close> with the time of the store, and
  \<open>r\<close> is returned. The claim's single call time is the case \<open>T'' = T'\<close>.
\<close>

theorem get_or_fetch_ttl:
  "(cache c k = Some (v, T) \<and> T' - T < ttl c
      \<longrightarrow> get_or_fetch c k f T' T'' w = (Inr v, c, w))
   \<and> ((cache c k = None \<or> (\<exists>v T. cache c k = Some (v, T) \<and> ttl c \<le> T' - T))
        \<and> f w = (Inr r, w')
      \<longrightarrow> get_or_fetch c k f T' T'' w
            = (Inr r, c\<lparr>cache := (cache c)(k \<mapsto> (r, T''))\<rparr>, w'))"
  using get_or_fetch_hit [of c k v T T' f T'' w]
    get_or_fetch_miss [of c k T' f T'' w] fetch_new_returns [of f w r w' c k T'']
  by auto

theorem get_or_fetch_ttl_witness:
  "get_or_fetch \<lparr>cache = [''k'' \<mapsto> (7::nat, 100)], ttl = 300\<rparr> ''k''
       (\<lambda>n::nat. (Inr 9, Suc n)) 399 399 0
     = (Inr 7, \<lparr>cache = [''k'' \<mapsto> (7, 100)], ttl = 300\<rparr>, 0)
   \<and> get_or_fetch \<lparr>cache = [''k'' \<mapsto> (7::nat, 100)], ttl = 300\<rparr> ''k''
       (\<lambda>n::nat. (Inr 9, Suc n)) 400 400 0
     = (Inr 9, \<lparr>cache = [''k'' \<mapsto> (9, 400)], ttl = 300\<rparr>, 1)"
  using get_or_fetch_ttl [of "\<lparr>cache = [''k'' \<mapsto> (7::nat, 100)], ttl = 300\<rparr>" "''k''" 7 100 399
          "\<lambda>n::nat. (Inr 9, Suc n)" 399 0 9 1]
        get_or_fetch_ttl [of "\<lparr>cache = [''k'' \<mapsto> (7::nat, 100)], ttl = 300\<rparr>" "''k''" 7 100 400
          "\<lambda>n::nat. (Inr 9, Suc n)" 400 0 9 1]
  by simp

text \<open>
  A fetcher that raises: the exception is the result, nothing is stored.
\<close>

lemma get_or_fetch_fetcher_raises:
  "cache c k = None \<Longrightarrow> f w = (Inl e, w')
    \<Longrightarrow> get_or_fetch c k f now_check now_store w = (Inl e, c, w')"
  by (simp add: get_or_fetch_def fetch_new_def)

text \<open>
  \<open>invalidate\<close> with a key that is not empty removes that entry and no other; with
  \<open>None\<close> it empties the dictionary; and \<open>get_or_fetch\<close> right after \<open>invalidate(k)\<close>
  fetches, for every \<open>k\<close>.
\<close>

lemma invalidate_key:
  "k \<noteq> [] \<Longrightarrow> cache (invalidate c (Some k)) = (cache c)(k := None)
    \<and> ttl (invalidate c (Some k)) = ttl c"
  by (simp add: invalidate_def truthy_def)

lemma invalidate_None: "cache (invalidate c None) = Map.empty"
  by (simp add: invalidate_def truthy_def)

lemma invalidate_then_fetch:
  "get_or_fetch (invalidate c (Some k)) k f t1 t2 w = fetch_new (invalidate c (Some k)) k f t2 w"
  by (simp add: invalidate_def truthy_def get_or_fetch_def)

text \<open>
  Claim C3, at the input where the code departs from it. The claim: \<open>invalidate(k)\<close>
  removes the entry of \<open>k\<close> only. For the key \<open>""\<close> the test \<open>if key:\<close> is false, and
  the whole dictionary is cleared: the entry stored under \<open>"graph_info"\<close> is gone too.
\<close>

theorem invalidate_empty_key_clears:
  "cache (invalidate \<lparr>cache = ['''' \<mapsto> (1::nat, 0), ''graph_info'' \<mapsto> (2, 0)],
                       ttl = 300000000\<rparr> (Some '''')) ''graph_info'' = None"
  by (simp add: invalidate_def truthy_def)

section \<open>Properties of the path resolver\<close>

lemma replace_from_char:
  "replace_from 0 s [x] new = concat (map (\<lambda>c. if c = x then new else [c]) s)"
  by (induction s) auto

lemma replace_char:
  "replace s [x] new = concat (map (\<lambda>c. if c = x then new else [c]) s)"
  by (simp add: replace_def replace_from_char)

lemma re_sub_class_char:
  "re_sub_class cls [r] s = map (\<lambda>c. if in_class cls c then r else c) s"
  by (induction s) (auto simp: re_sub_class_def)

lemma safe_name_two_steps:
  "safe_name page_name =
     map (\<lambda>c. if c \<in> set [CHR ''<'', CHR ''>'', CHR '':'', CHR 0x22, CHR ''|'', CHR ''?'', CHR ''*'']
              then CHR ''_'' else c)
       (concat (map (\<lambda>c. if c = CHR ''/'' then ''___'' else [c]) page_name))"
  by (simp add: safe_name_def replace_char re_sub_class_char)

lemma safe_name_no_slash: "CHR ''/'' \<notin> set (safe_name page_name)"
  by (induction page_name) (auto simp: safe_name_two_steps)

lemma digit_char_not_slash: "(n::nat) < 10 \<Longrightarrow> char_of (48 + n) \<noteq> CHR ''/''"
proof
  assume n: "n < 10" and eq: "char_of (48 + n) = CHR ''/''"
  have "of_char (char_of (48 + n) :: char) = (of_char (CHR ''/'') :: nat)"
    using eq by simp
  then have "(48 + n) mod 256 = 47" by simp
  with n show False by simp
qed

lemma str_nat_no_slash: "CHR ''/'' \<notin> set (str_nat n)"
proof (induction n rule: str_nat.induct)
  case (1 n)
  show ?case
  proof (cases "n < 10")
    case True
    then show ?thesis using digit_char_not_slash [of n] by (simp add: str_nat.simps)
  next
    case False
    have "n mod 10 < 10" by simp
    then have "char_of (48 + n mod 10) \<noteq> CHR ''/''" by (rule digit_char_not_slash)
    with False 1 show ?thesis by (simp add: str_nat.simps [of n])
  qed
qed

lemma zfill_no_slash: "CHR ''/'' \<notin> set s \<Longrightarrow> CHR ''/'' \<notin> set (zfill w s)"
  by (auto simp: zfill_def)

lemma strftime_journal:
  "strftime dt ''%Y_%m_%d.md'' =
     str_nat (year dt) @ ''_'' @ zfill 2 (str_nat (month dt)) @ ''_''
       @ zfill 2 (str_nat (day dt)) @ ''.md''"
  by simp

lemma strftime_no_slash: "CHR ''/'' \<notin> set (strftime dt ''%Y_%m_%d.md'')"
  unfolding strftime_journal by (simp add: zfill_no_slash str_nat_no_slash)

lemma strftime_suffix: "suffix ''.md'' (strftime dt ''%Y_%m_%d.md'')"
  unfolding strftime_journal by (simp add: suffix_def)

lemma try_formats_Some:
  "try_formats fs journal_name graph_path fmts = Some p
    \<Longrightarrow> Path_exists fs p = Inr True
      \<and> (\<exists>dt. p = joinpath (joinpath (Path graph_path) ''journals'') (strftime dt ''%Y_%m_%d.md''))"
proof (induction fmts)
  case Nil
  then show ?case by simp
next
  case (Cons fmt fmts)
  show ?case
  proof (cases "strptime (cleaned_name journal_name) fmt")
    case (Inl e)
    with Cons show ?thesis by simp
  next
    case (Inr dt)
    let ?jp = "joinpath (joinpath (Path graph_path) ''journals'') (strftime dt ''%Y_%m_%d.md'')"
    show ?thesis
    proof (cases "Path_exists fs ?jp")
      case raised: (Inl e)
      with Inr Cons.prems show ?thesis by (simp del: strftime.simps)
    next
      case answered: (Inr found)
      show ?thesis
      proof (cases found)
        case True
        with Inr answered Cons.prems have eq: "p = ?jp" by (simp del: strftime.simps)
        from True answered eq have "Path_exists fs p = Inr True" by simp
        with eq show ?thesis by blast
      next
        case False
        with Inr answered Cons.prems
        have "try_formats fs journal_name graph_path fmts = Some p" by (simp del: strftime.simps)
        then show ?thesis by (rule Cons.IH)
      qed
    qed
  qed
qed

text \<open>
  Claim C10. Whenever \<open>get_page_file_path\<close> returns a path, \<open>exists()\<close> answers
  \<open>True\<close> for that path in the file system, and it is the graph root followed by
  \<open>pages\<close> or \<open>journals\<close> and one file name: a name without \<open>/\<close> that ends in \<open>.md\<close>.
  A path that does not exist is never returned.
\<close>

theorem get_page_file_path_exists:
  "get_page_file_path fs page_name graph_path = Inr (Some p)
    \<Longrightarrow> Path_exists fs p = Inr True
      \<and> (\<exists>file. CHR ''/'' \<notin> set file \<and> suffix ''.md'' file
            \<and> (p = joinpath (joinpath (Path graph_path) ''pages'') file
               \<or> p = joinpath (joinpath (Path graph_path) ''journals'') file))"
proof -
  assume res: "get_page_file_path fs page_name graph_path = Inr (Some p)"
  let ?file = "safe_name page_name @ ''.md''"
  let ?pp = "joinpath (joinpath (Path graph_path) ''pages'') ?file"
  let ?jp = "joinpath (joinpath (Path graph_path) ''journals'') ?file"
  have nm: "CHR ''/'' \<notin> set ?file \<and> suffix ''.md'' ?file"
    using safe_name_no_slash [of page_name] by (simp add: suffix_def)
  from res have root: "graph_path \<noteq> [] \<and> os_path_exists fs graph_path"
    by (auto simp: get_page_file_path_def split: if_splits)
  from res root obtain page_found where pf: "Path_exists fs ?pp = Inr page_found"
    by (cases "Path_exists fs ?pp") (simp_all add: get_page_file_path_def)
  show ?thesis
  proof (cases page_found)
    case True
    with res root pf have eq: "p = ?pp" by (simp add: get_page_file_path_def)
    from True pf eq have "Path_exists fs p = Inr True" by simp
    with eq nm show ?thesis by blast
  next
    case np: False
    from res root pf np obtain journal_found where jf: "Path_exists fs ?jp = Inr journal_found"
      by (cases "Path_exists fs ?jp") (simp_all add: get_page_file_path_def)
    show ?thesis
    proof (cases journal_found)
      case True
      with res root pf np jf have eq: "p = ?jp" by (simp add: get_page_file_path_def)
      from True jf eq have "Path_exists fs p = Inr True" by simp
      with eq nm show ?thesis by blast
    next
      case nj: False
      from res root pf np jf nj
      have conv: "convert_journal_name_to_path fs page_name graph_path = Some p"
        by (auto simp: get_page_file_path_def split: if_splits option.splits sum.splits)
      from conv have "try_formats fs page_name graph_path journal_formats = Some p"
        by (simp add: convert_journal_name_to_path_def)
      from try_formats_Some [OF this] obtain dt where
        ex: "Path_exists fs p = Inr True" and
        "p = joinpath (joinpath (Path graph_path) ''journals'') (strftime dt ''%Y_%m_%d.md'')"
        by blast
      with strftime_no_slash [of dt] strftime_suffix [of dt] show ?thesis by blast
    qed
  qed
qed

text \<open>
  Claim C4. For every page name and every graph root that is given and exists: the safe
  name is the page name with every \<open>/\<close> replaced by \<open>___\<close> and then each of
  \<open>< > : " | ? *\<close> replaced by \<open>_\<close>; the file of that name under \<open>pages\<close> is returned
  when it exists, whatever is under \<open>journals\<close>; the one under \<open>journals\<close> is returned
  when it exists and the check of the one under \<open>pages\<close> answers that it does not; and
  \<open>Parent/Child\<close> resolves to \<open>pages/Parent___Child.md\<close> whenever that file exists.
\<close>

theorem get_page_file_path_pages_first:
  assumes "graph_path \<noteq> []" and "os_path_exists fs graph_path"
  shows "safe_name page_name =
           map (\<lambda>c. if c \<in> set [CHR ''<'', CHR ''>'', CHR '':'', CHR 0x22, CHR ''|'', CHR ''?'', CHR ''*'']
                    then CHR ''_'' else c)
             (concat (map (\<lambda>c. if c = CHR ''/'' then ''___'' else [c]) page_name))
     \<and> (Path_exists fs (joinpath (joinpath (Path graph_path) ''pages'') (safe_name page_name @ ''.md''))
            = Inr True
          \<longrightarrow> get_page_file_path fs page_name graph_path
               = Inr (Some (joinpath (joinpath (Path graph_path) ''pages'') (safe_name page_name @ ''.md''))))
     \<and> (Path_exists fs (joinpath (joinpath (Path graph_path) ''pages'') (safe_name page_name @ ''.md''))
            = Inr False
        \<and> Path_exists fs (joinpath (joinpath (Path graph_path) ''journals'') (safe_name page_name @ ''.md''))
            = Inr True
          \<longrightarrow> get_page_file_path fs page_name graph_path
               = Inr (Some (joinpath (joinpath (Path graph_path) ''journals'') (safe_name page_name @ ''.md''))))
     \<and> (Path_exists fs (joinpath (joinpath (Path graph_path) ''pages'') ''Parent___Child.md'') = Inr True
          \<longrightarrow> get_page_file_path fs ''Parent/Child'' graph_path
               = Inr (Some (joinpath (joinpath (Path graph_path) ''pages'') ''Parent___Child.md'')))"
proof (intro conjI)
  show "safe_name page_name =
          map (\<lambda>c. if c \<in> set [CHR ''<'', CHR ''>'', CHR '':'', CHR 0x22, CHR ''|'', CHR ''?'', CHR ''*'']
                   then CHR ''_'' else c)
            (concat (map (\<lambda>c. if c = CHR ''/'' then ''___'' else [c]) page_name))"
    by (rule safe_name_two_steps)
next
  show "Path_exists fs (joinpath (joinpath (Path graph_path) ''pages'') (safe_name page_name @ ''.md''))
            = Inr True
          \<longrightarrow> get_page_file_path fs page_name graph_path
               = Inr (Some (joinpath (joinpath (Path graph_path) ''pages'') (safe_name page_name @ ''.md'')))"
    using assms by (simp add: get_page_file_path_def)
next
  show "Path_exists fs (joinpath (joinpath (Path graph_path) ''pages'') (safe_name page_name @ ''.md''))
            = Inr False
        \<and> Path_exists fs (joinpath (joinpath (Path graph_path) ''journals'') (safe_name page_name @ ''.md''))
            = Inr True
          \<longrightarrow> get_page_file_path fs page_name graph_path
               = Inr (Some (joinpath (joinpath (Path graph_path) ''journals'') (safe_name page_name @ ''.md'')))"
    using assms by (simp add: get_page_file_path_def)
next
  have child: "safe_name ''Parent/Child'' = ''Parent___Child''"
    by (simp add: safe_name_two_steps)
  show "Path_exists fs (joinpath (joinpath (Path graph_path) ''pages'') ''Parent___Child.md'') = Inr True
          \<longrightarrow> get_page_file_path fs ''Parent/Child'' graph_path
               = Inr (Some (joinpath (joinpath (Path graph_path) ''pages'') ''Parent___Child.md''))"
    using assms by (simp add: get_page_file_path_def child)
qed

lemma graph_fs_root: "os_path_exists graph_fs ''/graph''"
  by (simp add: os_path_exists_def Path_stat_def Path_def embedded_null_def graph_fs_def)

lemma graph_fs_exists:
  "Path_exists graph_fs p
     = Inr (p \<in> set [[''/graph''], [''/graph'', ''pages''], [''/graph'', ''journals''],
                      [''/graph'', ''pages'', ''Parent___Child.md''],
                      [''/graph'', ''journals'', ''2024_12_01.md'']])"
  by (auto simp: Path_exists_def embedded_null_def graph_fs_def ignore_error_def)

theorem get_page_file_path_pages_first_witness:
  "''/graph'' \<noteq> [] \<and> os_path_exists graph_fs ''/graph''
   \<and> Path_exists graph_fs (joinpath (joinpath (Path ''/graph'') ''pages'') ''Parent___Child.md'')
       = Inr True
   \<and> get_page_file_path graph_fs ''Parent/Child'' ''/graph''
       = Inr (Some (joinpath (joinpath (Path ''/graph'') ''pages'') ''Parent___Child.md''))"
proof -
  have ex: "Path_exists graph_fs (joinpath (joinpath (Path ''/graph'') ''pages'') ''Parent___Child.md'')
       = Inr True"
    by (simp add: graph_fs_exists Path_def joinpath_def)
  have ne: "''/graph'' \<noteq> []" by simp
  from get_page_file_path_pages_first [OF ne graph_fs_root, of "''Parent/Child''"] ex graph_fs_root
  show ?thesis by simp
qed

text \<open>
  The two journal names of claim C5, evaluated: both have a journal shape, neither is
  changed by the sanitation, the ordinal suffix is stripped, the first format parses the
  abbreviated name and the second the full one, and the date gives the file name.
\<close>

lemma journal_shapes:
  "is_journal_page_name ''Dec 1st, 2024''" "is_journal_page_name ''December 1, 2024''"
  by code_simp+

lemma journal_safe_names:
  "safe_name ''Dec 1st, 2024'' = ''Dec 1st, 2024''" "safe_name ''December 1, 2024'' = ''December 1, 2024''"
  by (simp_all add: safe_name_two_steps)

lemma journal_cleaned:
  "cleaned_name ''Dec 1st, 2024'' = ''Dec 1, 2024''" "cleaned_name ''December 1, 2024'' = ''December 1, 2024''"
  by code_simp+

lemma journal_parsed:
  "strptime ''Dec 1, 2024'' ''%b %d, %Y'' = Inr \<lparr>year = 2024, month = 12, day = 1\<rparr>"
  "strptime ''December 1, 2024'' ''%b %d, %Y'' = Inl ValueError"
  "strptime ''December 1, 2024'' ''%B %d, %Y'' = Inr \<lparr>year = 2024, month = 12, day = 1\<rparr>"
  by code_simp+

lemma journal_filename:
  "strftime \<lparr>year = 2024, month = 12, day = 1\<rparr> ''%Y_%m_%d.md'' = ''2024_12_01.md''"
  "strftime \<lparr>year = 2024, month = 12, day = Suc 0\<rparr> ''%Y_%m_%d.md'' = ''2024_12_01.md''"
  by code_simp+

lemma journal_converted:
  assumes "Path_exists fs (joinpath (joinpath (Path graph_path) ''journals'') ''2024_12_01.md'') = Inr True"
  shows "convert_journal_name_to_path fs ''Dec 1st, 2024'' graph_path
           = Some (joinpath (joinpath (Path graph_path) ''journals'') ''2024_12_01.md'')"
    and "convert_journal_name_to_path fs ''December 1, 2024'' graph_path
           = Some (joinpath (joinpath (Path graph_path) ''journals'') ''2024_12_01.md'')"
  using assms
  by (simp_all add: convert_journal_name_to_path_def journal_formats_def journal_cleaned
      journal_parsed journal_filename Let_def del: strftime.simps)

lemma locked_fs_root: "os_path_exists locked_fs ''/graph''"
  by (simp add: os_path_exists_def Path_stat_def Path_def embedded_null_def locked_fs_def)

text \<open>
  Claim C5, as stated, at an input where it fails. The claim: both journal names resolve
  to \<open>journals/2024_12_01.md\<close> under every graph root that has this file and no file
  of the sanitized name under \<open>pages\<close> or \<open>journals\<close>. In the graph \<open>locked_fs\<close> the
  root and the journal file exist and \<open>stat\<close> finds no file of the sanitized name, but
  the directory \<open>pages\<close> may not be searched: the first call of \<open>exists()\<close> raises an
  \<open>OSError\<close>, and so does \<open>get_page_file_path\<close>.
\<close>

theorem journal_name_locked_pages:
  "os_path_exists locked_fs ''/graph''
   \<and> Path_exists locked_fs (joinpath (joinpath (Path ''/graph'') ''journals'') ''2024_12_01.md'')
       = Inr True
   \<and> Path_stat locked_fs (joinpath (joinpath (Path ''/graph'') ''pages'') ''Dec 1st, 2024.md'')
       = Inl OSError
   \<and> Path_stat locked_fs (joinpath (joinpath (Path ''/graph'') ''journals'') ''Dec 1st, 2024.md'')
       = Inl OSError
   \<and> get_page_file_path locked_fs ''Dec 1st, 2024'' ''/graph'' = Inl OSError"
  using locked_fs_root
  by (simp add: get_page_file_path_def journal_safe_names Path_exists_def Path_stat_def
      embedded_null_def locked_fs_def ignore_error_def Path_def joinpath_def)

text \<open>
  Claim C5, amended. For every graph root that is given and exists, in which
  \<open>journals/2024_12_01.md\<close> exists and the checks of the files of the sanitized name
  under \<open>pages\<close> and \<open>journals\<close> answer that they do not exist: \<open>Dec 1st, 2024\<close> and
  \<open>December 1, 2024\<close> are both recognized as journal names, the ordinal suffix is
  stripped, and both resolve to \<open>journals/2024_12_01.md\<close>.
\<close>

theorem journal_names_resolve:
  assumes "graph_path \<noteq> []" and "os_path_exists fs graph_path"
    and "Path_exists fs (joinpath (joinpath (Path graph_path) ''journals'') ''2024_12_01.md'') = Inr True"
    and "Path_exists fs (joinpath (joinpath (Path graph_path) ''pages'') ''Dec 1st, 2024.md'') = Inr False"
    and "Path_exists fs (joinpath (joinpath (Path graph_path) ''journals'') ''Dec 1st, 2024.md'') = Inr False"
    and "Path_exists fs (joinpath (joinpath (Path graph_path) ''pages'') ''December 1, 2024.md'') = Inr False"
    and "Path_exists fs (joinpath (joinpath (Path graph_path) ''journals'') ''December 1, 2024.md'') = Inr False"
  shows "is_journal_page_name ''Dec 1st, 2024'' \<and> is_journal_page_name ''December 1, 2024''
     \<and> cleaned_name ''Dec 1st, 2024'' = ''Dec 1, 2024''
     \<and> get_page_file_path fs ''Dec 1st, 2024'' graph_path
         = Inr (Some (joinpath (joinpath (Path graph_path) ''journals'') ''2024_12_01.md''))
     \<and> get_page_file_path fs ''December 1, 2024'' graph_path
         = Inr (Some (joinpath (joinpath (Path graph_path) ''journals'') ''2024_12_01.md''))"
proof -
  let ?jp = "joinpath (joinpath (Path graph_path) ''journals'') ''2024_12_01.md''"
  have r1: "get_page_file_path fs ''Dec 1st, 2024'' graph_path = Inr (Some ?jp)"
    using assms journal_converted(1) [OF assms(3)]
    by (simp add: get_page_file_path_def journal_safe_names journal_shapes)
  have r2: "get_page_file_path fs ''December 1, 2024'' graph_path = Inr (Some ?jp)"
    using assms journal_converted(2) [OF assms(3)]
    by (simp add: get_page_file_path_def journal_safe_names journal_shapes)
  show ?thesis
    using r1 r2 journal_shapes journal_cleaned(1) by simp
qed

theorem journal_names_resolve_witness:
  "os_path_exists graph_fs ''/graph''
   \<and> Path_exists graph_fs (joinpath (joinpath (Path ''/graph'') ''journals'') ''2024_12_01.md'')
       = Inr True
   \<and> Path_exists graph_fs (joinpath (joinpath (Path ''/graph'') ''pages'') ''Dec 1st, 2024.md'')
       = Inr False
   \<and> get_page_file_path graph_fs ''Dec 1st, 2024'' ''/graph''
       = Inr (Some (joinpath (joinpath (Path ''/graph'') ''journals'') ''2024_12_01.md''))
   \<and> get_page_file_path graph_fs ''December 1, 2024'' ''/graph''
       = Inr (Some (joinpath (joinpath (Path ''/graph'') ''journals'') ''2024_12_01.md''))"
proof -
  have h1: "''/graph'' \<noteq> []" by simp
  have h3: "Path_exists graph_fs (joinpath (joinpath (Path ''/graph'') ''journals'') ''2024_12_01.md'')
      = Inr True"
    by (simp add: graph_fs_exists Path_def joinpath_def)
  have h4: "Path_exists graph_fs (joinpath (joinpath (Path ''/graph'') ''pages'') ''Dec 1st, 2024.md'')
      = Inr False"
    by (simp add: graph_fs_exists Path_def joinpath_def)
  have h5: "Path_exists graph_fs (joinpath (joinpath (Path ''/graph'') ''journals'') ''Dec 1st, 2024.md'')
      = Inr False"
    by (simp add: graph_fs_exists Path_def joinpath_def)
  have h6: "Path_exists graph_fs (joinpath (joinpath (Path ''/graph'') ''pages'') ''December 1, 2024.md'')
      = Inr False"
    by (simp add: graph_fs_exists Path_def joinpath_def)
  have h7: "Path_exists graph_fs (joinpath (joinpath (Path ''/graph'') ''journals'') ''December 1, 2024.md'')
      = Inr False"
    by (simp add: graph_fs_exists Path_def joinpath_def)
  from journal_names_resolve [OF h1 graph_fs_root h3 h4 h5 h6 h7] graph_fs_root h3 h4
  show ?thesis by simp
qed

theorem get_page_file_path_exists_witness:
  "get_page_file_path graph_fs ''Parent/Child'' ''/graph''
     = Inr (Some (joinpath (joinpath (Path ''/graph'') ''pages'') ''Parent___Child.md''))
   \<and> Path_exists graph_fs (joinpath (joinpath (Path ''/graph'') ''pages'') ''Parent___Child.md'')
     = Inr True"
proof -
  have r: "get_page_file_path graph_fs ''Parent/Child'' ''/graph''
     = Inr (Some (joinpath (joinpath (Path ''/graph'') ''pages'') ''Parent___Child.md''))"
    using graph_fs_root
    by (simp add: get_page_file_path_def safe_name_two_steps graph_fs_exists Path_def joinpath_def)
  from get_page_file_path_exists [OF r] r show ?thesis by simp
qed

section \<open>Properties of get_file_metadata\<close>

text \<open>
  Claim C6, as stated, at an input where it fails. The claim: \<open>get_file_metadata\<close>
  returns a record for every path and never raises. For a path with a NUL character
  \<open>stat\<close> raises \<open>ValueError\<close>, which the handler \<open>except (OSError, IOError)\<close> does not
  catch: the function raises.
\<close>

theorem get_file_metadata_embedded_null:
  "get_file_metadata graph_fs isoformat_const (Path [CHR ''a'', CHR 0x00, CHR ''b'']) = Inl ValueError"
  by (simp add: get_file_metadata_def except_OSError_def Path_stat_def embedded_null_def Path_def)

text \<open>
  Claim C6, amended. When \<open>stat\<close> raises \<open>OSError\<close> the result is the zeroed record
  with \<open>exists = False\<close>; when \<open>stat\<close> succeeds and both time stamps convert to a date
  the result has \<open>exists = True\<close>, with the size and the time stamps of the file; an
  exception of \<open>stat\<close> other than \<open>OSError\<close> propagates; and \<open>OSError\<close> is never
  raised.
\<close>

theorem get_file_metadata_cases:
  "(Path_stat fs file_path = Inl OSError
      \<longrightarrow> get_file_metadata fs isoformat_local file_path
           = Inr \<lparr>md_size = 0, md_size_mb = 0, md_modified_time = 0, md_created_time = 0,
                  md_modified_date = None, md_created_date = None, md_exists = False\<rparr>)
   \<and> (Path_stat fs file_path = Inr stat \<and> isoformat_local (st_mtime stat) = Inr modified
        \<and> isoformat_local (st_ctime stat) = Inr created
      \<longrightarrow> get_file_metadata fs isoformat_local file_path
           = Inr \<lparr>md_size = st_size stat,
                  md_size_mb = round2 (of_nat (st_size stat) / 1024 / 1024),
                  md_modified_time = st_mtime stat, md_created_time = st_ctime stat,
                  md_modified_date = Some modified, md_created_date = Some created,
                  md_exists = True\<rparr>)
   \<and> (Path_stat fs file_path = Inl e \<and> e \<noteq> OSError
      \<longrightarrow> get_file_metadata fs isoformat_local file_path = Inl e)
   \<and> get_file_metadata fs isoformat_local file_path \<noteq> Inl OSError"
  by (auto simp: get_file_metadata_def except_OSError_def zeroed_metadata_def split: sum.splits)

lemma graph_fs_stat:
  "Path_stat graph_fs (Path ''/graph'') = Inr \<lparr>st_size = 2048, st_mtime = 1733000000, st_ctime = 1732000000\<rparr>"
  "Path_stat graph_fs (Path ''/missing'') = Inl OSError"
  by (simp_all add: Path_stat_def embedded_null_def Path_def graph_fs_def)

theorem get_file_metadata_cases_witness:
  "get_file_metadata graph_fs isoformat_const (Path ''/missing'')
     = Inr \<lparr>md_size = 0, md_size_mb = 0, md_modified_time = 0, md_created_time = 0,
            md_modified_date = None, md_created_date = None, md_exists = False\<rparr>
   \<and> get_file_metadata graph_fs isoformat_const (Path ''/graph'')
     = Inr \<lparr>md_size = 2048, md_size_mb = round2 (2048 / 1024 / 1024), md_modified_time = 1733000000,
            md_created_time = 1732000000, md_modified_date = Some ''2024-12-01T00:00:00'',
            md_created_date = Some ''2024-12-01T00:00:00'', md_exists = True\<rparr>"
proof -
  from get_file_metadata_cases [of graph_fs "Path ''/missing''" isoformat_const undefined undefined undefined undefined]
       get_file_metadata_cases [of graph_fs "Path ''/graph''" isoformat_const
          "\<lparr>st_size = 2048, st_mtime = 1733000000, st_ctime = 1732000000\<rparr>"
          "''2024-12-01T00:00:00''" "''2024-12-01T00:00:00''" undefined]
       graph_fs_stat
  show ?thesis by (simp add: isoformat_const_def)
qed

section \<open>Properties of the page loop\<close>

text \<open>
  \<open>contains\<close> is the substring test: some part of the string, without gaps, is \<open>sub\<close>.
\<close>

lemma contains_sublist: "contains s sub \<longleftrightarrow> sublist sub s"
proof (induction s)
  case Nil
  then show ?case by simp
next
  case (Cons c cs)
  then show ?case by (auto simp: sublist_Cons_right)
qed

text \<open>
  One iteration changes the orphan list and the link counts each as a function of the
  page name alone; so the lists after the loop are a filter and a fold over the page
  names.
\<close>

lemma orphaned_process_page:
  "orphaned_pages (process_page client st pg)
     = orphaned_pages st @ (if is_orphan client (page_name_of pg) then [page_name_of pg] else [])"
  by (auto simp: process_page_def is_orphan_def Let_def split: sum.splits)

lemma counts_process_page:
  "page_link_counts (process_page client st pg)
     = count_step client (page_link_counts st) (page_name_of pg)"
  by (auto simp: process_page_def count_step_def Let_def split: sum.splits)

lemma orphaned_foldl:
  "orphaned_pages (foldl (process_page client) st pages)
     = orphaned_pages st @ filter (is_orphan client) (map page_name_of pages)"
  by (induction pages arbitrary: st) (simp_all add: orphaned_process_page)

lemma counts_foldl:
  "page_link_counts (foldl (process_page client) st pages)
     = foldl (count_step client) (page_link_counts st) (map page_name_of pages)"
  by (induction pages arbitrary: st) (simp_all add: counts_process_page)

lemma orphaned_analyse:
  "orphaned_pages (analyse_pages client pages) = filter (is_orphan client) (map page_name_of pages)"
  by (simp add: analyse_pages_def orphaned_foldl analysis_init_def)

lemma counts_analyse:
  "page_link_counts (analyse_pages client pages)
     = foldl (count_step client) [] (map page_name_of pages)"
  by (simp add: analyse_pages_def counts_foldl analysis_init_def)

lemma map_of_dict_set: "map_of (dict_set d k v) = (map_of d)(k \<mapsto> v)"
  by (induction d k v rule: dict_set.induct) auto

lemma map_of_count_step:
  "map_of (count_step client d p)
     = (case get_page_linked_references client p of
          Inl e \<Rightarrow> map_of d
        | Inr refs \<Rightarrow> (map_of d)(p \<mapsto> length refs))"
  by (simp add: count_step_def map_of_dict_set split: sum.splits)

lemma map_of_counts_foldl:
  "map_of (foldl (count_step client) d names) q
     = (if q \<in> set names
        then (case get_page_linked_references client q of
                Inl e \<Rightarrow> map_of d q
              | Inr refs \<Rightarrow> Some (length refs))
        else map_of d q)"
  by (induction names arbitrary: d) (auto simp: map_of_count_step split: sum.splits)

lemma logged_process_page_mono: "set (logged st) \<subseteq> set (logged (process_page client st pg))"
  by (auto simp: process_page_def Let_def split: sum.splits)

lemma logged_foldl_mono: "set (logged st) \<subseteq> set (logged (foldl (process_page client) st pages))"
proof (induction pages arbitrary: st)
  case Nil
  then show ?case by simp
next
  case (Cons pg pages)
  have "set (logged st) \<subseteq> set (logged (process_page client st pg))"
    by (rule logged_process_page_mono)
  also have "\<dots> \<subseteq> set (logged (foldl (process_page client) (process_page client st pg) pages))"
    by (rule Cons.IH)
  finally show ?case by simp
qed

lemma logged_process_page_refs:
  "get_page_linked_references client (page_name_of pg) = Inl e
    \<Longrightarrow> (page_name_of pg, e) \<in> set (logged (process_page client st pg))"
  by (simp add: process_page_def Let_def)

lemma logged_process_page_blocks:
  "get_page_linked_references client (page_name_of pg) = Inr []
    \<Longrightarrow> get_page_blocks client (page_name_of pg) = Inl e
    \<Longrightarrow> (page_name_of pg, e) \<in> set (logged (process_page client st pg))"
  by (simp add: process_page_def Let_def)

lemma logged_foldl_member:
  "pg \<in> set pages
    \<Longrightarrow> (\<And>st. (page_name_of pg, e) \<in> set (logged (process_page client st pg)))
    \<Longrightarrow> (page_name_of pg, e) \<in> set (logged (foldl (process_page client) st pages))"
proof (induction pages arbitrary: st)
  case Nil
  then show ?case by simp
next
  case (Cons a pages)
  show ?case
  proof (cases "pg = a")
    case True
    have "(page_name_of pg, e) \<in> set (logged (process_page client st a))"
      using Cons.prems(2) True by simp
    then show ?thesis
      using logged_foldl_mono [of "process_page client st a" client pages] by auto
  next
    case False
    with Cons.prems have "pg \<in> set pages" by simp
    then show ?thesis using Cons.IH Cons.prems(2) by simp
  qed
qed


lemma logged_analyse_refs:
  "pg \<in> set pages \<Longrightarrow> get_page_linked_references client (page_name_of pg) = Inl e
    \<Longrightarrow> (page_name_of pg, e) \<in> set (logged (analyse_pages client pages))"
  unfolding analyse_pages_def
  by (rule logged_foldl_member) (simp_all add: logged_process_page_refs)

lemma logged_analyse_blocks:
  "pg \<in> set pages \<Longrightarrow> get_page_linked_references client (page_name_of pg) = Inr []
    \<Longrightarrow> get_page_blocks client (page_name_of pg) = Inl e
    \<Longrightarrow> (page_name_of pg, e) \<in> set (logged (analyse_pages client pages))"
  unfolding analyse_pages_def
  by (rule logged_foldl_member) (simp_all add: logged_process_page_blocks)

lemma counts_key_None:
  "get_page_linked_references client p = Inl e
    \<Longrightarrow> map_of (page_link_counts (analyse_pages client pages)) p = None"
  by (simp add: counts_analyse map_of_counts_foldl)

lemma counts_key_Some:
  "pg \<in> set pages \<Longrightarrow> get_page_linked_references client (page_name_of pg) = Inr refs
    \<Longrightarrow> map_of (page_link_counts (analyse_pages client pages)) (page_name_of pg)
        = Some (length refs)"
  by (simp add: counts_analyse map_of_counts_foldl)

text \<open>
  Claim C7. For every page of the list that is processed without an error (the lookup of
  its linked references returns, and so does the lookup of its blocks when there is no
  reference): the page is in the orphan list if and only if it has no linked reference
  and no block of it has \<open>[[\<close> in its content. So a page with no linked reference and
  a block with \<open>[[\<close> is not an orphan.
\<close>

theorem orphaned_iff:
  assumes "pg \<in> set all_pages"
    and "get_page_linked_references client (page_name_of pg) = Inr refs"
    and "refs = [] \<longrightarrow> get_page_blocks client (page_name_of pg) = Inr blocks"
  shows "page_name_of pg \<in> set (orphaned_pages (analyse_pages client all_pages))
     \<longleftrightarrow> length refs = 0 \<and> \<not> (\<exists>b \<in> set blocks. sublist ''[['' (content_of b))"
proof -
  have "page_name_of pg \<in> set (orphaned_pages (analyse_pages client all_pages))
     \<longleftrightarrow> is_orphan client (page_name_of pg)"
    using assms(1) by (auto simp: orphaned_analyse)
  also have "\<dots> \<longleftrightarrow> refs = [] \<and> \<not> has_outgoing blocks"
    using assms(2,3) by (auto simp: is_orphan_def)
  also have "\<dots> \<longleftrightarrow> length refs = 0 \<and> \<not> (\<exists>b \<in> set blocks. sublist ''[['' (content_of b))"
    by (simp add: has_outgoing_def list_ex_iff contains_sublist)
  finally show ?thesis .
qed

lemma example_lonely: "\<lparr>name = Some ''Lonely'', journal = None\<rparr> \<in> set example_pages"
  by (simp add: example_pages_def)

theorem orphaned_iff_witness:
  "''Lonely'' \<in> set (orphaned_pages (analyse_pages example_client example_pages))
   \<and> ''Linker'' \<notin> set (orphaned_pages (analyse_pages example_client example_pages))"
proof -
  have a: "\<lparr>name = Some ''Lonely'', journal = None\<rparr> \<in> set example_pages"
    and b: "\<lparr>name = Some ''Linker'', journal = None\<rparr> \<in> set example_pages"
    by (simp_all add: example_pages_def)
  have sub: "sublist ''[['' ''see [[Hub]]''"
    unfolding contains_sublist [symmetric] by simp
  have nsub: "\<not> sublist ''[['' ''plain text''"
    unfolding contains_sublist [symmetric] by simp
  from orphaned_iff [OF a, of example_client "[]" "[\<lparr>content = Some ''plain text''\<rparr>]"]
       orphaned_iff [OF b, of example_client "[]" "[\<lparr>content = Some ''see [[Hub]]''\<rparr>]"]
       sub nsub
  show ?thesis
    by (simp add: example_client_def page_name_of_def content_of_def)
qed

text \<open>
  Claim C8, as stated, at an input where it fails. The claim: a page whose processing
  raises an error contributes to neither the link counts nor the orphan list. The page
  \<open>Broken\<close> has no linked reference, and the lookup of its blocks raises: the error is
  caught and logged, but the count 0 of the page was stored in \<open>page_link_counts\<close>
  before.
\<close>

theorem blocks_error_counted:
  "get_page_linked_references example_client (page_name_of broken_page) = Inr []
   \<and> get_page_blocks example_client (page_name_of broken_page) = Inl (APIError ''timeout'')
   \<and> logged (analyse_pages example_client [broken_page]) = [(''Broken'', APIError ''timeout'')]
   \<and> page_link_counts (analyse_pages example_client [broken_page]) = [(''Broken'', 0)]"
  by (simp add: analyse_pages_def analysis_init_def process_page_def example_client_def
      broken_page_def page_name_of_def Let_def)

text \<open>
  Claim C8, amended. When the lookup of a page's linked references raises, the error is
  caught and logged, the pages behind it are processed, and the orphan list and the link
  counts are what they are for the list without that page: the page is in neither. When
  the lookup of the blocks of a page without linked references raises, the error is
  caught and logged and the orphan list is what it is without that page, but the page is
  in the link counts, with count 0.
\<close>

theorem page_errors_caught:
  "(get_page_linked_references client (page_name_of pg) = Inl e
      \<longrightarrow> orphaned_pages (analyse_pages client (before @ pg # after))
            = orphaned_pages (analyse_pages client (before @ after))
        \<and> page_link_counts (analyse_pages client (before @ pg # after))
            = page_link_counts (analyse_pages client (before @ after))
        \<and> page_name_of pg \<notin> set (orphaned_pages (analyse_pages client (before @ pg # after)))
        \<and> page_name_of pg \<notin> fst ` set (page_link_counts (analyse_pages client (before @ pg # after)))
        \<and> (page_name_of pg, e) \<in> set (logged (analyse_pages client (before @ pg # after))))
   \<and> (get_page_linked_references client (page_name_of pg) = Inr []
       \<and> get_page_blocks client (page_name_of pg) = Inl e
      \<longrightarrow> orphaned_pages (analyse_pages client (before @ pg # after))
            = orphaned_pages (analyse_pages client (before @ after))
        \<and> page_name_of pg \<notin> set (orphaned_pages (analyse_pages client (before @ pg # after)))
        \<and> map_of (page_link_counts (analyse_pages client (before @ pg # after))) (page_name_of pg)
            = Some 0
        \<and> (page_name_of pg, e) \<in> set (logged (analyse_pages client (before @ pg # after))))"
proof (intro conjI impI)
  assume r: "get_page_linked_references client (page_name_of pg) = Inl e"
  then have no: "\<not> is_orphan client (page_name_of pg)" by (simp add: is_orphan_def)
  show "orphaned_pages (analyse_pages client (before @ pg # after))
          = orphaned_pages (analyse_pages client (before @ after))"
    using no by (simp add: orphaned_analyse)
  show "page_link_counts (analyse_pages client (before @ pg # after))
          = page_link_counts (analyse_pages client (before @ after))"
    using r by (simp add: counts_analyse count_step_def)
  show "page_name_of pg \<notin> set (orphaned_pages (analyse_pages client (before @ pg # after)))"
    using no by (simp add: orphaned_analyse)
  have "map_of (page_link_counts (analyse_pages client (before @ pg # after))) (page_name_of pg) = None"
    using r by (rule counts_key_None)
  then show "page_name_of pg \<notin> fst ` set (page_link_counts (analyse_pages client (before @ pg # after)))"
    by (simp add: map_of_eq_None_iff)
  show "(page_name_of pg, e) \<in> set (logged (analyse_pages client (before @ pg # after)))"
    using r by (intro logged_analyse_refs) simp_all
next
  assume "get_page_linked_references client (page_name_of pg) = Inr []
       \<and> get_page_blocks client (page_name_of pg) = Inl e"
  then have r: "get_page_linked_references client (page_name_of pg) = Inr []"
    and b: "get_page_blocks client (page_name_of pg) = Inl e" by simp_all
  from b have no: "\<not> is_orphan client (page_name_of pg)" by (simp add: is_orphan_def)
  show "orphaned_pages (analyse_pages client (before @ pg # after))
          = orphaned_pages (analyse_pages client (before @ after))"
    using no by (simp add: orphaned_analyse)
  show "page_name_of pg \<notin> set (orphaned_pages (analyse_pages client (before @ pg # after)))"
    using no by (simp add: orphaned_analyse)
  show "map_of (page_link_counts (analyse_pages client (before @ pg # after))) (page_name_of pg) = Some 0"
    using counts_key_Some [of pg "before @ pg # after" client "[]"] r by simp
  show "(page_name_of pg, e) \<in> set (logged (analyse_pages client (before @ pg # after)))"
    using r b by (intro logged_analyse_blocks) simp_all
qed

theorem page_errors_caught_witness:
  "get_page_linked_references example_client ''Down'' = Inl (APIError ''timeout'')
   \<and> ''Down'' \<notin> set (orphaned_pages (analyse_pages example_client example_pages))
   \<and> ''Down'' \<notin> fst ` set (page_link_counts (analyse_pages example_client example_pages))
   \<and> (''Down'', APIError ''timeout'') \<in> set (logged (analyse_pages example_client example_pages))
   \<and> get_page_blocks example_client ''Broken'' = Inl (APIError ''timeout'')
   \<and> ''Broken'' \<notin> set (orphaned_pages (analyse_pages example_client example_pages))
   \<and> map_of (page_link_counts (analyse_pages example_client example_pages)) ''Broken'' = Some 0
   \<and> (''Broken'', APIError ''timeout'') \<in> set (logged (analyse_pages example_client example_pages))"
proof -
  let ?three = "[\<lparr>name = Some ''Lonely'', journal = None\<rparr>, \<lparr>name = Some ''Linker'', journal = None\<rparr>,
      \<lparr>name = Some ''Hub'', journal = None\<rparr>]"
  have split_down: "example_pages = (?three @ [broken_page]) @ down_page # []"
    and split_broken: "example_pages = ?three @ broken_page # [down_page]"
    by (simp_all add: example_pages_def)
  have names: "page_name_of down_page = ''Down''" "page_name_of broken_page = ''Broken''"
    by (simp_all add: page_name_of_def down_page_def broken_page_def)
  have down: "get_page_linked_references example_client ''Down'' = Inl (APIError ''timeout'')"
    and broken: "get_page_linked_references example_client ''Broken'' = Inr []"
      "get_page_blocks example_client ''Broken'' = Inl (APIError ''timeout'')"
    by (simp_all add: example_client_def)
  from page_errors_caught [of example_client down_page "APIError ''timeout''"
         "?three @ [broken_page]" "[]", folded split_down]
       page_errors_caught [of example_client broken_page "APIError ''timeout''"
         ?three "[down_page]", folded split_broken]
       down broken
  show ?thesis
    unfolding names by blast
qed

section \<open>Properties of the resource functions\<close>

lemma load_limit:
  "load_name [[(''fetch_recent_pages'', ObjV)], resources_globals] ''limit''
    = Inl (NameError ''limit'')"
  by (simp add: resources_globals_def)

lemma load_days:
  "load_name [[(''fetch_recent_journals'', ObjV)], resources_globals] ''days''
    = Inl (NameError ''days'')"
  by (simp add: resources_globals_def)

text \<open>
  Claim C1, as the code behaves. The claim: the two producers use the cache keys
  \<open>"recent_pages_20"\<close> and \<open>"recent_journals_7"\<close>. In the code the names \<open>limit\<close> and
  \<open>days\<close> are bound only inside the closures, so building the key raises \<open>NameError\<close>
  on every call, before the cache is looked up: the cache and the world are unchanged and
  the fetcher is not invoked.
\<close>

theorem recent_keys_NameError:
  "get_recent_pages c f t1 t2 w = (Inl (NameError ''limit''), c, w)
   \<and> get_recent_journals c g t1 t2 w = (Inl (NameError ''days''), c, w)"
  unfolding get_recent_pages_def get_recent_journals_def load_limit load_days
  by simp

lemma getattr_MAX_LINKED_PAGES:
  "getattr cfg ''MAX_LINKED_PAGES'' = Inl (AttributeError ''MAX_LINKED_PAGES'')"
  by (simp add: getattr_def Config_dict_def)

text \<open>
  Claim C9, as the code behaves. The claim: the result is truncated to three configured
  limits, which are configuration values with defaults. \<open>Config\<close> defines none of
  them, so whenever the client returns the pages, \<open>fetch_graph_structure\<close> raises
  \<open>AttributeError\<close> at \<open>config.MAX_LINKED_PAGES\<close>, after the loop over the pages, and
  returns no result.
\<close>

theorem fetch_graph_structure_AttributeError:
  "fetch_graph_structure cfg (client\<lparr>get_all_pages := Inr all_pages\<rparr>)
     = Inl (AttributeError ''MAX_LINKED_PAGES'')"
  by (simp add: fetch_graph_structure_def getattr_MAX_LINKED_PAGES)

end
